theory Spec2Isabelle
  imports Complex_Main "HOL-Library.Product_Lexorder"
begin

section \<open>The parts of Python's standard library the bank system relies on\<close>

text \<open>
  \<^verbatim>\<open>bank_system.py\<close> computes with \<^verbatim>\<open>decimal.Decimal\<close> under the default context
  (28 significant digits, ROUND_HALF_EVEN), parses dates with
  \<^verbatim>\<open>datetime.strptime(s, "%Y%m%d")\<close> and compares and subtracts \<^verbatim>\<open>datetime.date\<close> values.
  This section models those library operations; the sections after it translate the
  classes of \<^verbatim>\<open>bank_system.py\<close> line by line.

  Strings are lists of 8-bit characters, so the model covers the inputs whose code points
  are below 256. Among those, the digits are the ten ASCII digits.
\<close>

subsection \<open>Decimal numbers\<close>

text \<open>
  A finite \<^verbatim>\<open>Decimal\<close> is a signed coefficient and an exponent: \<open>Decimal c e\<close> stands for
  \<open>c * 10 ^ e\<close>, so \<^verbatim>\<open>Decimal('5.00')\<close> is \<open>Decimal 500 (-2)\<close>. The sign of a zero and the
  exponent limits of the context (\<open>Emax = 999999\<close>, \<open>Emin = -999999\<close>) are not modelled.
\<close>

datatype decimal = Decimal (coeff: int) (expo: int)

definition prec :: nat where
  "prec = 28"

text \<open>The number of decimal digits of a non-negative integer: \<^verbatim>\<open>len(str(n))\<close>.\<close>

function ndigits :: "int \<Rightarrow> nat" where
  "ndigits n = (if n < 10 then 1 else Suc (ndigits (n div 10)))"
  by pat_completeness auto
termination
  by (relation "measure nat") auto

declare ndigits.simps [simp del]

text \<open>Dropping the last \<open>k\<close> digits of a non-negative integer, under the two rounding modes.\<close>

definition round_half_even :: "int \<Rightarrow> nat \<Rightarrow> int" where
  "round_half_even n k =
     (let q = n div 10 ^ k; r = n mod 10 ^ k
      in if 10 ^ k < 2 * r \<or> (2 * r = 10 ^ k \<and> odd q) then q + 1 else q)"

definition round_half_up :: "int \<Rightarrow> nat \<Rightarrow> int" where
  "round_half_up n k =
     (let q = n div 10 ^ k; r = n mod 10 ^ k
      in if 10 ^ k \<le> 2 * r then q + 1 else q)"

text \<open>
  \<^verbatim>\<open>Decimal._fix\<close>: a result with more than \<open>prec\<close> digits is rounded to \<open>prec\<close> digits,
  half to even, and its exponent raised by the number of digits dropped.
\<close>

definition dec_fix :: "decimal \<Rightarrow> decimal" where
  "dec_fix d =
     (let c = \<bar>coeff d\<bar>; n = ndigits c
      in if coeff d = 0 \<or> n \<le> prec then d
         else let k = n - prec; q = round_half_even c k
              in if prec < ndigits q
                 then Decimal (sgn (coeff d) * (q div 10)) (expo d + int k + 1)
                 else Decimal (sgn (coeff d) * q) (expo d + int k))"

definition dec_add :: "decimal \<Rightarrow> decimal \<Rightarrow> decimal" where
  "dec_add a b =
     (let e = min (expo a) (expo b)
      in dec_fix (Decimal (coeff a * 10 ^ nat (expo a - e) + coeff b * 10 ^ nat (expo b - e)) e))"

definition dec_neg :: "decimal \<Rightarrow> decimal" where
  "dec_neg a = Decimal (- coeff a) (expo a)"

definition dec_sub :: "decimal \<Rightarrow> decimal \<Rightarrow> decimal" where
  "dec_sub a b = dec_add a (dec_neg b)"

definition dec_mul :: "decimal \<Rightarrow> decimal \<Rightarrow> decimal" where
  "dec_mul a b = dec_fix (Decimal (coeff a * coeff b) (expo a + expo b))"

text \<open>
  \<^verbatim>\<open>Decimal.__truediv__\<close>: the quotient is computed to \<open>prec + 1\<close> digits and then fixed;
  an exact quotient is brought as close to the ideal exponent as its trailing zeros allow.
  Both divisions of the program have a nonzero literal as divisor.
\<close>

function strip_zeros :: "int \<Rightarrow> int \<Rightarrow> int \<Rightarrow> int \<times> int" where
  "strip_zeros c e ideal =
     (if e < ideal \<and> c mod 10 = 0 then strip_zeros (c div 10) (e + 1) ideal else (c, e))"
  by pat_completeness auto
termination
  by (relation "measure (\<lambda>(c, e, ideal). nat (ideal - e))") auto

declare strip_zeros.simps [simp del]

definition dec_div :: "decimal \<Rightarrow> decimal \<Rightarrow> decimal" where
  "dec_div a b =
     (if coeff a = 0 then dec_fix (Decimal 0 (expo a - expo b))
      else
        let n1 = \<bar>coeff a\<bar>; n2 = \<bar>coeff b\<bar>;
            shift = int (ndigits n2) - int (ndigits n1) + int prec + 1;
            e = expo a - expo b - shift;
            num = (if 0 \<le> shift then n1 * 10 ^ nat shift else n1);
            den = (if 0 \<le> shift then n2 else n2 * 10 ^ nat (- shift));
            q = num div den; r = num mod den;
            ce = (if r \<noteq> 0 then (if q mod 5 = 0 then q + 1 else q, e)
                  else strip_zeros q e (expo a - expo b))
        in dec_fix (Decimal (sgn (coeff a) * sgn (coeff b) * fst ce) (snd ce)))"

text \<open>Comparison is by numeric value: both coefficients are brought to the smaller exponent.\<close>

definition dec_le :: "decimal \<Rightarrow> decimal \<Rightarrow> bool" where
  "dec_le a b =
     (let e = min (expo a) (expo b)
      in coeff a * 10 ^ nat (expo a - e) \<le> coeff b * 10 ^ nat (expo b - e))"

definition dec_less :: "decimal \<Rightarrow> decimal \<Rightarrow> bool" where
  "dec_less a b =
     (let e = min (expo a) (expo b)
      in coeff a * 10 ^ nat (expo a - e) < coeff b * 10 ^ nat (expo b - e))"

text \<open>
  \<^verbatim>\<open>x.quantize(Decimal('0.01'), rounding=ROUND_HALF_UP)\<close>. It raises \<^verbatim>\<open>InvalidOperation\<close>
  (here \<open>None\<close>) when the result would need more than \<open>prec\<close> digits.
\<close>

definition quantize :: "decimal \<Rightarrow> decimal option" where
  "quantize d =
     (if coeff d = 0 then Some (Decimal 0 (- 2))
      else if int prec < int (ndigits \<bar>coeff d\<bar>) + expo d + 2 then None
      else
        let c = (if - 2 \<le> expo d then \<bar>coeff d\<bar> * 10 ^ nat (expo d + 2)
                 else round_half_up \<bar>coeff d\<bar> (nat (- 2 - expo d)))
        in if prec < ndigits c then None else Some (Decimal (sgn (coeff d) * c) (- 2)))"

text \<open>The exact value of a decimal, for comparing the program with exact arithmetic.\<close>

definition dec_val :: "decimal \<Rightarrow> rat" where
  "dec_val d = (if 0 \<le> expo d then of_int (coeff d * 10 ^ nat (expo d))
                else of_int (coeff d) / of_int (10 ^ nat (- expo d)))"

subsection \<open>Strings\<close>

definition is_digit :: "char \<Rightarrow> bool" where
  "is_digit c = (c \<in> set ''0123456789'')"

definition digit_val :: "char \<Rightarrow> int" where
  "digit_val c = int (of_char c) - 48"

definition int_of_digits :: "string \<Rightarrow> int" where
  "int_of_digits s = foldl (\<lambda>n c. 10 * n + digit_val c) 0 s"

text \<open>\<^verbatim>\<open>str.isspace\<close> and \<^verbatim>\<open>str.strip\<close> on code points below 256.\<close>

definition isspace :: "char \<Rightarrow> bool" where
  "isspace c = ((of_char c :: nat) \<in> set [9, 10, 11, 12, 13, 28, 29, 30, 31, 32, 133, 160])"

definition strip :: "string \<Rightarrow> string" where
  "strip s = rev (dropWhile isspace (rev (dropWhile isspace s)))"

text \<open>
  \<^verbatim>\<open>str.upper\<close> on the ASCII letters. No other character is mapped to \<^verbatim>\<open>D\<close>, \<^verbatim>\<open>W\<close> or
  \<^verbatim>\<open>I\<close>, the only values the program compares an upper-cased string with.
\<close>

definition upper_char :: "char \<Rightarrow> char" where
  "upper_char c =
     (let n = (of_char c :: nat) in if 97 \<le> n \<and> n \<le> 122 then char_of (n - 32) else c)"

definition upper :: "string \<Rightarrow> string" where
  "upper s = map upper_char s"

text \<open>\<^verbatim>\<open>str(n)\<close> for a natural number and the format \<^verbatim>\<open>{n:02d}\<close>.\<close>

fun str_of_nat :: "nat \<Rightarrow> string" where
  "str_of_nat n =
     (if n < 10 then [char_of (48 + n)] else str_of_nat (n div 10) @ [char_of (48 + n mod 10)])"

declare str_of_nat.simps [simp del]

definition format_02d :: "nat \<Rightarrow> string" where
  "format_02d n = (let s = str_of_nat n in replicate (2 - length s) CHR ''0'' @ s)"

subsection \<open>Constructing a Decimal from a string\<close>

text \<open>
  \<^verbatim>\<open>Decimal(s)\<close> strips white space, removes underscores and matches
  \<^verbatim>\<open>[-+]? (digits [. digits] | . digits) (E [-+]? digits)?\<close>, letter case ignored; the
  value is exact. \<open>None\<close> stands for every input that does not end as a finite number:
  a syntax error raises \<^verbatim>\<open>InvalidOperation\<close>, and for \<^verbatim>\<open>Infinity\<close> and \<^verbatim>\<open>NaN\<close> the
  \<^verbatim>\<open>quantize\<close> or the comparison that follows in both callers raises it, inside the same
  \<^verbatim>\<open>try\<close> block.
\<close>

definition split_sign :: "string \<Rightarrow> bool \<times> string" where
  "split_sign s =
     (case s of
        [] \<Rightarrow> (False, [])
      | c # r \<Rightarrow> if c = CHR ''-'' then (True, r)
                 else if c = CHR ''+'' then (False, r) else (False, s))"

definition Decimal_of_str :: "string \<Rightarrow> decimal option" where
  "Decimal_of_str s =
     (let (neg, s1) = split_sign (filter (\<lambda>c. c \<noteq> CHR ''_'') (strip s));
          intpart = takeWhile is_digit s1; r1 = dropWhile is_digit s1;
          has_dot = (r1 \<noteq> [] \<and> hd r1 = CHR ''.'');
          fracpart = (if has_dot then takeWhile is_digit (tl r1) else []);
          r2 = (if has_dot then dropWhile is_digit (tl r1) else r1);
          c = int_of_digits (intpart @ fracpart);
          sc = (if neg then - c else c)
      in if intpart = [] \<and> fracpart = [] then None
         else if r2 = [] then Some (Decimal sc (- int (length fracpart)))
         else if hd r2 \<in> set ''eE'' then
           (let (eneg, ds) = split_sign (tl r2);
                e = int_of_digits ds
            in if ds \<noteq> [] \<and> list_all is_digit ds
               then Some (Decimal sc ((if eneg then - e else e) - int (length fracpart)))
               else None)
         else None)"

subsection \<open>Calendar dates\<close>

text \<open>
  A \<^verbatim>\<open>datetime.date\<close> is the triple (year, month, day); Python orders dates
  lexicographically on it, which is the order of the product type.
\<close>

type_synonym date = "int \<times> int \<times> int"

definition year_of :: "date \<Rightarrow> int" where
  "year_of d = fst d"

definition month_of :: "date \<Rightarrow> int" where
  "month_of d = fst (snd d)"

definition day_of :: "date \<Rightarrow> int" where
  "day_of d = snd (snd d)"

definition is_leap :: "int \<Rightarrow> bool" where
  "is_leap y = (y mod 4 = 0 \<and> (y mod 100 \<noteq> 0 \<or> y mod 400 = 0))"

definition days_in_month :: "int \<Rightarrow> int \<Rightarrow> int" where
  "days_in_month y m =
     (if m = 2 \<and> is_leap y then 29
      else [31, 28, 31, 30, 31, 30, 31, 31, 30, 31, 30, 31] ! nat (m - 1))"

definition valid_date :: "int \<Rightarrow> int \<Rightarrow> int \<Rightarrow> bool" where
  "valid_date y m d =
     (1 \<le> y \<and> y \<le> 9999 \<and> 1 \<le> m \<and> m \<le> 12 \<and> 1 \<le> d \<and> d \<le> days_in_month y m)"

definition days_before_year :: "int \<Rightarrow> int" where
  "days_before_year y = (let p = y - 1 in p * 365 + p div 4 - p div 100 + p div 400)"

definition days_before_month :: "int \<Rightarrow> int \<Rightarrow> int" where
  "days_before_month y m =
     [0, 31, 59, 90, 120, 151, 181, 212, 243, 273, 304, 334] ! nat (m - 1)
       + (if 2 < m \<and> is_leap y then 1 else 0)"

definition toordinal :: "date \<Rightarrow> int" where
  "toordinal d =
     days_before_year (year_of d) + days_before_month (year_of d) (month_of d) + day_of d"

text \<open>
  \<^verbatim>\<open>datetime.strptime(s, "%Y%m%d").date()\<close>. The format compiles to the regular expression
  \<^verbatim>\<open>(\d\d\d\d)(1[0-2]|0[1-9]|[1-9])(3[0-1]|[1-2]\d|0[1-9]|[1-9]| [1-9])\<close>, matched at the
  start of the string: alternatives are tried in this order, a later month alternative
  only when no day alternative matches after an earlier one. Text left over after the
  match and a triple that is not a calendar date raise \<^verbatim>\<open>ValueError\<close> (here \<open>None\<close>).
\<close>

definition match_Y :: "string \<Rightarrow> (int \<times> string) list" where
  "match_Y s =
     (case s of
        a # b # c # d # r \<Rightarrow>
          if list_all is_digit [a, b, c, d] then [(int_of_digits [a, b, c, d], r)] else []
      | _ \<Rightarrow> [])"

definition match_two :: "string \<Rightarrow> string \<Rightarrow> string \<Rightarrow> (int \<times> string) list" where
  "match_two firsts seconds s =
     (case s of
        a # b # r \<Rightarrow>
          if a \<in> set firsts \<and> b \<in> set seconds then [(int_of_digits [a, b], r)] else []
      | _ \<Rightarrow> [])"

definition match_one :: "string \<Rightarrow> string \<Rightarrow> (int \<times> string) list" where
  "match_one firsts s =
     (case s of a # r \<Rightarrow> if a \<in> set firsts then [(int_of_digits [a], r)] else [] | _ \<Rightarrow> [])"

definition match_m :: "string \<Rightarrow> (int \<times> string) list" where
  "match_m s =
     match_two ''1'' ''012'' s @ match_two ''0'' ''123456789'' s @ match_one ''123456789'' s"

definition match_d :: "string \<Rightarrow> (int \<times> string) list" where
  "match_d s =
     match_two ''3'' ''01'' s @ match_two ''12'' ''0123456789'' s
       @ match_two ''0'' ''123456789'' s @ match_one ''123456789'' s
       @ (case s of
            a # r \<Rightarrow> if a = CHR '' '' then match_one ''123456789'' r else []
          | _ \<Rightarrow> [])"

definition strptime :: "string \<Rightarrow> date option" where
  "strptime s =
     (case concat (map (\<lambda>(y, r0). concat (map (\<lambda>(m, r1).
             map (\<lambda>(d, r2). (y, m, d, r2)) (match_d r1)) (match_m r0))) (match_Y s)) of
        [] \<Rightarrow> None
      | (y, m, d, r2) # _ \<Rightarrow>
          if r2 \<noteq> [] then None
          else if valid_date y m d then Some (y, m, d) else None)"

text \<open>
  \<^verbatim>\<open>calendar.monthrange(year, month)[1]\<close> raises \<^verbatim>\<open>IllegalMonthError\<close> for a month outside
  1..12 and accepts any year; \<^verbatim>\<open>datetime(year, month, day)\<close> raises \<^verbatim>\<open>ValueError\<close> unless
  the triple is a calendar date of the years 1..9999; adding a day to 9999-12-31 raises
  \<^verbatim>\<open>OverflowError\<close>.
\<close>

datatype exn = ValueError | IllegalMonthError | OverflowError | InvalidOperation

datatype 'a outcome = Return 'a | Raise exn

definition monthrange :: "int \<Rightarrow> int \<Rightarrow> exn + int" where
  "monthrange y m =
     (if \<not> (1 \<le> m \<and> m \<le> 12) then Inl IllegalMonthError else Inr (days_in_month y m))"

definition datetime_date :: "int \<Rightarrow> int \<Rightarrow> int \<Rightarrow> exn + date" where
  "datetime_date y m d = (if valid_date y m d then Inr (y, m, d) else Inl ValueError)"

definition max_ordinal :: int where
  "max_ordinal = 3652059"

section \<open>The classes of bank\_system.py\<close>

subsection \<open>Transaction, InterestRule and BankAccount\<close>

record Transaction =
  txn_date :: date
  account :: string
  transaction_type :: string
  amount :: decimal
  txn_id :: "string option"

text \<open>The constructors quantize their numeric argument, which can raise (\<open>None\<close>).\<close>

definition Transaction_init ::
  "date \<Rightarrow> string \<Rightarrow> string \<Rightarrow> decimal \<Rightarrow> string option \<Rightarrow> Transaction option" where
  "Transaction_init d a ty amt i =
     (case quantize amt of
        None \<Rightarrow> None
      | Some q \<Rightarrow>
          Some \<lparr>txn_date = d, account = a, transaction_type = upper ty, amount = q,
                txn_id = i\<rparr>)"

record InterestRule =
  rule_date :: date
  rule_id :: string
  rate :: decimal

definition InterestRule_init :: "date \<Rightarrow> string \<Rightarrow> decimal \<Rightarrow> InterestRule option" where
  "InterestRule_init d i r =
     (case quantize r of
        None \<Rightarrow> None
      | Some q \<Rightarrow> Some \<lparr>rule_date = d, rule_id = i, rate = q\<rparr>)"

record BankAccount =
  account_id :: string
  transactions :: "Transaction list"

definition BankAccount_init :: "string \<Rightarrow> BankAccount" where
  "BankAccount_init i = \<lparr>account_id = i, transactions = []\<rparr>"

definition add_transaction :: "BankAccount \<Rightarrow> Transaction \<Rightarrow> BankAccount" where
  "add_transaction self t = self\<lparr>transactions := transactions self @ [t]\<rparr>"

definition balance_step :: "date \<Rightarrow> decimal \<Rightarrow> Transaction \<Rightarrow> decimal" where
  "balance_step target_date balance txn =
     (if txn_date txn \<le> target_date then
        (if transaction_type txn = ''D'' then dec_add balance (amount txn)
         else if transaction_type txn = ''W'' then dec_sub balance (amount txn)
         else if transaction_type txn = ''I'' then dec_add balance (amount txn)
         else balance)
      else balance)"

definition get_balance_at_date :: "BankAccount \<Rightarrow> date \<Rightarrow> decimal" where
  "get_balance_at_date self target_date =
     foldl (balance_step target_date) (Decimal 0 0) (transactions self)"

definition can_withdraw :: "BankAccount \<Rightarrow> decimal \<Rightarrow> date \<Rightarrow> bool" where
  "can_withdraw self amt d = (let current_balance = get_balance_at_date self d
                              in dec_le amt current_balance)"

subsection \<open>BankSystem\<close>

record BankSystem =
  accounts :: "string \<rightharpoonup> BankAccount"
  interest_rules :: "InterestRule list"
  transaction_counters :: "string \<rightharpoonup> nat"

definition BankSystem_init :: BankSystem where
  "BankSystem_init =
     \<lparr>accounts = Map.empty, interest_rules = [], transaction_counters = Map.empty\<rparr>"

abbreviation msg_invalid_date :: string where
  "msg_invalid_date \<equiv> ''Invalid date format. Please use YYYYMMDD format.''"

abbreviation msg_invalid_type :: string where
  "msg_invalid_type \<equiv> ''Invalid transaction type. Use D for deposit or W for withdrawal.''"

abbreviation msg_non_positive :: string where
  "msg_non_positive \<equiv> ''Amount must be greater than zero.''"

abbreviation msg_invalid_amount :: string where
  "msg_invalid_amount \<equiv> ''Invalid amount format.''"

abbreviation msg_insufficient :: string where
  "msg_insufficient \<equiv> ''Insufficient funds for withdrawal.''"

abbreviation msg_rate_range :: string where
  "msg_rate_range \<equiv> ''Interest rate must be greater than 0 and less than 100.''"

abbreviation msg_invalid_rate :: string where
  "msg_invalid_rate \<equiv> ''Invalid rate format.''"

text \<open>
  \<^verbatim>\<open>create_transaction\<close>. The account is created (lines 71-72) before the withdrawal
  check (line 77); the counter is incremented (lines 82-84) before the transaction is
  constructed (line 88).
\<close>

definition create_transaction ::
  "BankSystem \<Rightarrow> string \<Rightarrow> string \<Rightarrow> string \<Rightarrow> string \<Rightarrow> (bool \<times> string) outcome \<times> BankSystem"
  where
  "create_transaction self date_str acc txn_type amount_str =
     (case strptime date_str of
        None \<Rightarrow> (Return (False, msg_invalid_date), self)
      | Some d \<Rightarrow>
          if upper txn_type \<notin> set [''D'', ''W''] then (Return (False, msg_invalid_type), self)
          else
            (case Option.bind (Decimal_of_str amount_str) quantize of
               None \<Rightarrow> (Return (False, msg_invalid_amount), self)
             | Some amt \<Rightarrow>
                 if dec_le amt (Decimal 0 0) then (Return (False, msg_non_positive), self)
                 else
                   let self1 = (if accounts self acc = None
                                then self\<lparr>accounts := (accounts self)(acc \<mapsto> BankAccount_init acc)\<rparr>
                                else self);
                       a = (case accounts self acc of
                              None \<Rightarrow> BankAccount_init acc
                            | Some a0 \<Rightarrow> a0)
                   in if upper txn_type = ''W'' \<and> \<not> can_withdraw a amt d
                      then (Return (False, msg_insufficient), self1)
                      else
                        let n = (case transaction_counters self1 date_str of
                                   None \<Rightarrow> 0
                                 | Some k \<Rightarrow> k) + 1;
                            self2 = self1\<lparr>transaction_counters :=
                                      (transaction_counters self1)(date_str \<mapsto> n)\<rparr>;
                            new_id = date_str @ ''-'' @ format_02d n
                        in (case Transaction_init d acc txn_type amt (Some new_id) of
                              None \<Rightarrow> (Raise InvalidOperation, self2)
                            | Some t \<Rightarrow>
                                (Return (True, acc),
                                 self2\<lparr>accounts := (accounts self2)(acc \<mapsto> add_transaction a t)\<rparr>))))"

definition add_interest_rule ::
  "BankSystem \<Rightarrow> string \<Rightarrow> string \<Rightarrow> string \<Rightarrow> (bool \<times> string option) outcome \<times> BankSystem"
  where
  "add_interest_rule self date_str rid rate_str =
     (case strptime date_str of
        None \<Rightarrow> (Return (False, Some msg_invalid_date), self)
      | Some d \<Rightarrow>
          (case Option.bind (Decimal_of_str rate_str) quantize of
             None \<Rightarrow> (Return (False, Some msg_invalid_rate), self)
           | Some r \<Rightarrow>
               if dec_le r (Decimal 0 0) \<or> dec_le (Decimal 100 0) r
               then (Return (False, Some msg_rate_range), self)
               else
                 let self1 = self\<lparr>interest_rules :=
                               filter (\<lambda>rule. rule_date rule \<noteq> d) (interest_rules self)\<rparr>
                 in (case InterestRule_init d rid r of
                       None \<Rightarrow> (Raise InvalidOperation, self1)
                     | Some rule \<Rightarrow>
                         (Return (True, None),
                          self1\<lparr>interest_rules :=
                                  sort_key rule_date (interest_rules self1 @ [rule])\<rparr>))))"

text \<open>
  \<^verbatim>\<open>calculate_interest\<close>, lines 147-162: the dates of the month at which the balance or
  the rate changes, as a sorted list without duplicates.
\<close>

definition balance_change_dates ::
  "Transaction list \<Rightarrow> InterestRule list \<Rightarrow> date \<Rightarrow> date \<Rightarrow> date list" where
  "balance_change_dates account_txns rules start_date end_date =
     sort (remdups
       (map txn_date (filter (\<lambda>t. start_date \<le> txn_date t \<and> txn_date t \<le> end_date) account_txns)
        @ map rule_date (filter (\<lambda>r. start_date \<le> rule_date r \<and> rule_date r \<le> end_date) rules)
        @ [start_date]))"

text \<open>Lines 185-188: the last rule of the list whose date is not after the given date.\<close>

definition applicable_rule :: "InterestRule list \<Rightarrow> date \<Rightarrow> InterestRule option" where
  "applicable_rule rules current_date =
     foldl (\<lambda>found rule. if rule_date rule \<le> current_date then Some rule else found) None rules"

text \<open>Line 192, with the two integers converted to \<^verbatim>\<open>Decimal\<close> as the operators do.\<close>

definition daily_interest :: "decimal \<Rightarrow> decimal \<Rightarrow> int \<Rightarrow> decimal" where
  "daily_interest balance r num_days =
     dec_div (dec_mul (dec_div (dec_mul balance r) (Decimal 100 0)) (Decimal num_days 0))
       (Decimal 365 0)"

text \<open>
  Lines 167-193: the loop over the indices of the sorted dates, here over the list and
  its tail. \<^verbatim>\<open>next_date\<close> is used only in \<^verbatim>\<open>(next_date - current_date).days\<close>, so the model
  keeps its ordinal.
\<close>

fun interest_loop ::
  "BankAccount \<Rightarrow> InterestRule list \<Rightarrow> date \<Rightarrow> date list \<Rightarrow> decimal \<Rightarrow> exn + decimal" where
  "interest_loop a rules end_date [] total_interest = Inr total_interest"
| "interest_loop a rules end_date (current_date # rest) total_interest =
     (if current_date = end_date then interest_loop a rules end_date rest total_interest
      else if rest = [] \<and> max_ordinal < toordinal end_date + 1 then Inl OverflowError
      else
        let next_ord = (case rest of
                          [] \<Rightarrow> toordinal end_date + 1
                        | next_date # _ \<Rightarrow> toordinal next_date);
            num_days = next_ord - toordinal current_date;
            balance = get_balance_at_date a current_date
        in (case applicable_rule rules current_date of
              None \<Rightarrow> interest_loop a rules end_date rest total_interest
            | Some rule \<Rightarrow>
                interest_loop a rules end_date rest
                  (dec_add total_interest (daily_interest balance (rate rule) num_days))))"

text \<open>Lines 147-196: the month's interest, summed over the periods and rounded once.\<close>

definition month_total ::
  "BankAccount \<Rightarrow> InterestRule list \<Rightarrow> Transaction list \<Rightarrow> date \<Rightarrow> date \<Rightarrow> exn + decimal" where
  "month_total a rules account_txns start_date end_date =
     (case interest_loop a rules end_date
             (balance_change_dates account_txns rules start_date end_date) (Decimal 0 0) of
        Inl e \<Rightarrow> Inl e
      | Inr unrounded \<Rightarrow>
          (case quantize unrounded of
             None \<Rightarrow> Inl InvalidOperation
           | Some total_interest \<Rightarrow> Inr total_interest))"

definition calculate_interest ::
  "BankSystem \<Rightarrow> string \<Rightarrow> int \<Rightarrow> int \<Rightarrow> decimal option outcome \<times> BankSystem" where
  "calculate_interest self acc y m =
     (case accounts self acc of
        None \<Rightarrow> (Return None, self)
      | Some a \<Rightarrow>
          (case monthrange y m of
             Inl e \<Rightarrow> (Raise e, self)
           | Inr last_day \<Rightarrow>
               (case datetime_date y m 1 of
                  Inl e \<Rightarrow> (Raise e, self)
                | Inr start_date \<Rightarrow>
                    (case datetime_date y m last_day of
                       Inl e \<Rightarrow> (Raise e, self)
                     | Inr end_date \<Rightarrow>
                         let account_txns = filter (\<lambda>t. txn_date t \<le> end_date) (transactions a)
                         in if account_txns = [] then (Return None, self)
                            else
                              let interest_txns =
                                    filter (\<lambda>t. transaction_type t = ''I''
                                                \<and> year_of (txn_date t) = y
                                                \<and> month_of (txn_date t) = m) account_txns
                              in if interest_txns \<noteq> [] then (Return None, self)
                                 else
                                   (case month_total a (interest_rules self) account_txns
                                           start_date end_date of
                                      Inl e \<Rightarrow> (Raise e, self)
                                    | Inr total_interest \<Rightarrow>
                                        if dec_less (Decimal 0 0) total_interest then
                                          (case Transaction_init end_date acc ''I''
                                                  total_interest None of
                                             None \<Rightarrow> (Raise InvalidOperation, self)
                                           | Some t \<Rightarrow>
                                               (Return (Some total_interest),
                                                self\<lparr>accounts :=
                                                  (accounts self)(acc \<mapsto> add_transaction a t)\<rparr>))
                                        else (Return (Some (Decimal 0 0)), self))))))"

text \<open>
  The states the program can be in: it starts from \<^verbatim>\<open>BankSystem()\<close> and changes only
  through the three operations (\<^verbatim>\<open>print_monthly_statement\<close> changes it by calling
  \<^verbatim>\<open>calculate_interest\<close>; the other methods only read).
\<close>

inductive reachable :: "BankSystem \<Rightarrow> bool" where
  reachable_init: "reachable BankSystem_init"
| reachable_post: "reachable s \<Longrightarrow> reachable (snd (create_transaction s d a ty amt))"
| reachable_rule: "reachable s \<Longrightarrow> reachable (snd (add_interest_rule s d i r))"
| reachable_accrue: "reachable s \<Longrightarrow> reachable (snd (calculate_interest s a y m))"

inductive evolves :: "BankSystem \<Rightarrow> BankSystem \<Rightarrow> bool" where
  evolves_refl: "evolves s s"
| evolves_post: "evolves s s' \<Longrightarrow> evolves s (snd (create_transaction s' d a ty amt))"
| evolves_rule: "evolves s s' \<Longrightarrow> evolves s (snd (add_interest_rule s' d i r))"
| evolves_accrue: "evolves s s' \<Longrightarrow> evolves s (snd (calculate_interest s' a y m))"

text \<open>The ledger of an account id: its account, or a fresh one (lines 71-74).\<close>

definition ledger :: "BankSystem \<Rightarrow> string \<Rightarrow> BankAccount" where
  "ledger s acc = (case accounts s acc of None \<Rightarrow> BankAccount_init acc | Some a \<Rightarrow> a)"

section \<open>Scenarios\<close>

text \<open>
  The scenario of \<^verbatim>\<open>test_calculate_interest_multiple_transactions\<close>: two deposits, a
  withdrawal and a rule of 5 percent, all in January 2023.
\<close>

definition january_scenario :: BankSystem where
  "january_scenario =
     snd (add_interest_rule
       (snd (create_transaction
         (snd (create_transaction
           (snd (create_transaction BankSystem_init ''20230101'' ''ACC001'' ''D'' ''1000.00''))
           ''20230115'' ''ACC001'' ''D'' ''500.00''))
         ''20230120'' ''ACC001'' ''W'' ''200.00''))
       ''20230101'' ''RULE1'' ''5.00'')"

text \<open>A deposit, a withdrawal of all of it at a later date, then a backdated withdrawal.\<close>

definition overdraft_scenario :: BankSystem where
  "overdraft_scenario =
     snd (create_transaction
       (snd (create_transaction
         (snd (create_transaction BankSystem_init ''20230101'' ''ACC001'' ''D'' ''100.00''))
         ''20230120'' ''ACC001'' ''W'' ''100.00''))
       ''20230110'' ''ACC001'' ''W'' ''100.00'')"

section \<open>Properties\<close>

subsection \<open>The January scenario\<close>

text \<open>
  Claim C2. From an empty system, after a deposit of 1000 on 2023-01-01, a deposit of 500
  on 2023-01-15, a withdrawal of 200 on 2023-01-20 and a rule of 5 percent from 2023-01-01,
  the interest of January 2023 is 5.08: the sum of the three period terms (1000 for 14
  days, 1500 for 5 days, 1300 for 12 days, each at 5 percent over 365), rounded once; and
  one interest transaction of 5.08 dated 2023-01-31 is appended to the account.
\<close>

theorem january_interest:
  "fst (calculate_interest january_scenario ''ACC001'' 2023 1) = Return (Some (Decimal 508 (- 2)))
   \<and> quantize
        (dec_add
          (dec_add
            (dec_add (Decimal 0 0)
              (daily_interest (Decimal 100000 (- 2)) (Decimal 500 (- 2)) 14))
            (daily_interest (Decimal 150000 (- 2)) (Decimal 500 (- 2)) 5))
          (daily_interest (Decimal 130000 (- 2)) (Decimal 500 (- 2)) 12))
       = Some (Decimal 508 (- 2))
   \<and> interest_loop (ledger january_scenario ''ACC001'') (interest_rules january_scenario)
        (2023, 1, 31) [(2023, 1, 1), (2023, 1, 15), (2023, 1, 20)] (Decimal 0 0)
       = Inr (dec_add
          (dec_add
            (dec_add (Decimal 0 0)
              (daily_interest (Decimal 100000 (- 2)) (Decimal 500 (- 2)) 14))
            (daily_interest (Decimal 150000 (- 2)) (Decimal 500 (- 2)) 5))
          (daily_interest (Decimal 130000 (- 2)) (Decimal 500 (- 2)) 12))
   \<and> balance_change_dates (transactions (ledger january_scenario ''ACC001''))
        (interest_rules january_scenario) (2023, 1, 1) (2023, 1, 31)
       = [(2023, 1, 1), (2023, 1, 15), (2023, 1, 20)]
   \<and> map_option transactions
        (accounts (snd (calculate_interest january_scenario ''ACC001'' 2023 1)) ''ACC001'')
       = Some (transactions (ledger january_scenario ''ACC001'')
           @ [\<lparr>txn_date = (2023, 1, 31), account = ''ACC001'', transaction_type = ''I'',
                amount = Decimal 508 (- 2), txn_id = None\<rparr>])
   \<and> map (\<lambda>t. (txn_date t, transaction_type t, amount t))
        (transactions (ledger january_scenario ''ACC001''))
       = [((2023, 1, 1), ''D'', Decimal 100000 (- 2)),
          ((2023, 1, 15), ''D'', Decimal 50000 (- 2)),
          ((2023, 1, 20), ''W'', Decimal 20000 (- 2))]"
  by code_simp

subsection \<open>Balances can become negative\<close>

text \<open>
  Claim C10. A non-negative balance at every date is not an invariant: a deposit of 100 on
  2023-01-01, a withdrawal of 100 dated 2023-01-20 and then a withdrawal of 100 backdated
  to 2023-01-10 are all accepted, since each withdrawal is checked only against the balance
  at its own date when it is posted; afterwards the balance at 2023-01-20 is -100.
\<close>

theorem backdated_withdrawal_overdraws:
  "fst (create_transaction BankSystem_init ''20230101'' ''ACC001'' ''D'' ''100.00'')
     = Return (True, ''ACC001'')
   \<and> fst (create_transaction
        (snd (create_transaction BankSystem_init ''20230101'' ''ACC001'' ''D'' ''100.00''))
        ''20230120'' ''ACC001'' ''W'' ''100.00'') = Return (True, ''ACC001'')
   \<and> fst (create_transaction
        (snd (create_transaction
          (snd (create_transaction BankSystem_init ''20230101'' ''ACC001'' ''D'' ''100.00''))
          ''20230120'' ''ACC001'' ''W'' ''100.00''))
        ''20230110'' ''ACC001'' ''W'' ''100.00'') = Return (True, ''ACC001'')
   \<and> get_balance_at_date (ledger overdraft_scenario ''ACC001'') (2023, 1, 20)
       = Decimal (- 10000) (- 2)
   \<and> dec_less (get_balance_at_date (ledger overdraft_scenario ''ACC001'') (2023, 1, 20))
        (Decimal 0 0)"
  by code_simp

subsection \<open>A rejected withdrawal on an unknown account\<close>

text \<open>
  Claim C1 at a concrete input: a withdrawal from an account id the system has never seen is
  rejected for insufficient funds, and the accounts map has gained that id, with an empty
  ledger. No transaction is stored and no counter is touched.
\<close>

theorem rejected_withdrawal_creates_account:
  "fst (create_transaction BankSystem_init ''20230101'' ''ACC001'' ''W'' ''100.00'')
     = Return (False, msg_insufficient)
   \<and> accounts BankSystem_init ''ACC001'' = None
   \<and> accounts (snd (create_transaction BankSystem_init ''20230101'' ''ACC001'' ''W'' ''100.00''))
        ''ACC001'' = Some \<lparr>account_id = ''ACC001'', transactions = []\<rparr>
   \<and> transaction_counters
        (snd (create_transaction BankSystem_init ''20230101'' ''ACC001'' ''W'' ''100.00''))
        ''20230101'' = None"
  by code_simp

subsection \<open>Date texts that are not eight digits\<close>

text \<open>
  Claim C6 at concrete inputs: the seven characters \<^verbatim>\<open>2023115\<close> are accepted as a date,
  2023-11-05, by both operations, and so are six digits and a text with a space.
\<close>

theorem short_date_text_accepted:
  "fst (create_transaction BankSystem_init ''2023115'' ''ACC001'' ''D'' ''100.00'')
     = Return (True, ''ACC001'')
   \<and> fst (add_interest_rule BankSystem_init ''2023115'' ''RULE1'' ''5.00'') = Return (True, None)
   \<and> strptime ''2023115'' = Some (2023, 11, 5)
   \<and> strptime ''202315'' = Some (2023, 1, 5)
   \<and> strptime ''20231 5'' = Some (2023, 1, 5)
   \<and> length ''2023115'' = 7"
  by code_simp

end
